theory Spec2Isabelle
  imports Main "HOL-Library.Word"
begin

unbundle bit_operations_syntax

section \<open>The HTTP boundary: app/main.py\<close>

subsection \<open>Values crossing the boundary\<close>

text \<open>
  A Python exception that \<open>except Exception\<close> catches: its class name and the text
  \<open>str(e)\<close>, which is what an f-string interpolates.
\<close>

datatype exn = Exn (exn_class: string) (exn_str: string)

text \<open>FastAPI's \<open>HTTPException(status_code=..., detail=...)\<close>.\<close>

datatype http_exception = HTTPException (status_code: nat) (detail: string)

text \<open>
  The JSON bodies the three handlers return: \<open>{"status": "ok"}\<close>,
  \<open>{"code": code, "valid_for": valid_for}\<close> and \<open>{"valid": valid}\<close>.
\<close>

datatype response = Status string | Code2FA string int | Valid bool

record DecryptSeedRequest =
  encrypted_seed :: string

text \<open>\<open>code: str | None = None\<close>: an absent field is \<open>None\<close>.\<close>

record Verify2FARequest =
  code :: "string option"

subsection \<open>Collaborators imported by main.py\<close>

text \<open>
  \<open>crypto_utils\<close> and \<open>totp_utils\<close> are imported by main.py; the handlers only call
  them and catch what they raise, so they are parameters here. The key handle is opaque
  (type \<open>'k\<close>); the TOTP helpers read the clock themselves.
\<close>

record 'k deps =
  load_private_key :: "string \<Rightarrow> exn + 'k"
  decrypt_seed :: "string \<Rightarrow> 'k \<Rightarrow> exn + string"
  generate_totp_code :: "string \<Rightarrow> exn + string"
  seconds_remaining_in_period :: "int \<Rightarrow> exn + int"
  verify_totp_code :: "string \<Rightarrow> string \<Rightarrow> int \<Rightarrow> exn + bool"

subsection \<open>The seed file\<close>

text \<open>
  The single persisted slot \<open>SEED_FILE\<close>: \<open>seed_file\<close> is the text stored in it,
  \<open>None\<close> while the file does not exist. File operations can raise:
  \<open>write_error\<close>, when set, is the exception the next \<open>write_text\<close> raises together
  with what the failed write leaves in the slot; \<open>read_error\<close>, when set, is the
  exception \<open>read_text\<close> raises.
\<close>

record world =
  seed_file :: "string option"
  write_error :: "(exn \<times> string option) option"
  read_error :: "exn option"

definition exists_file :: "world \<Rightarrow> bool" where
  "exists_file w = (seed_file w \<noteq> None)"

definition write_text :: "string \<Rightarrow> world \<Rightarrow> (exn + unit) \<times> world" where
  "write_text s w =
     (case write_error w of
        None \<Rightarrow> (Inr (), w\<lparr>seed_file := Some s\<rparr>)
      | Some (e, left) \<Rightarrow> (Inl e, w\<lparr>seed_file := left\<rparr>))"

text \<open>
  \<open>Path.read_text\<close> opens the file in text mode with universal newlines: a carriage
  return followed by a line feed, and a carriage return alone, are both read as one line
  feed. (\<open>Path.write_text\<close> on POSIX stores a line feed as it is.)
\<close>

fun universal_newlines :: "string \<Rightarrow> string" where
  "universal_newlines [] = []"
| "universal_newlines [c] = (if c = CHR 0x0D then [CHR 0x0A] else [c])"
| "universal_newlines (c # c' # cs) =
     (if c = CHR 0x0D \<and> c' = CHR 0x0A then CHR 0x0A # universal_newlines cs
      else if c = CHR 0x0D then CHR 0x0A # universal_newlines (c' # cs)
      else c # universal_newlines (c' # cs))"

definition read_text :: "world \<Rightarrow> exn + string" where
  "read_text w =
     (case read_error w of
        Some e \<Rightarrow> Inl e
      | None \<Rightarrow>
          (case seed_file w of
             None \<Rightarrow> Inl (Exn ''FileNotFoundError'' ''No such file or directory'')
           | Some s \<Rightarrow> Inr (universal_newlines s)))"

subsection \<open>Python's \<open>str.strip()\<close>\<close>

text \<open>
  The characters \<open>str.isspace\<close> accepts among the code points below 256: tab, line feed,
  vertical tab, form feed, carriage return, the separators 0x1C to 0x1F, space, 0x85 and
  0xA0. A \<open>char\<close> stands for one such code point.
\<close>

definition isspace :: "char \<Rightarrow> bool" where
  "isspace c =
     (let n = of_char c :: nat
      in (9 \<le> n \<and> n \<le> 13) \<or> (28 \<le> n \<and> n \<le> 32) \<or> n = 133 \<or> n = 160)"

definition lstrip :: "string \<Rightarrow> string" where
  "lstrip s = dropWhile isspace s"

definition rstrip :: "string \<Rightarrow> string" where
  "rstrip s = rev (dropWhile isspace (rev s))"

definition strip :: "string \<Rightarrow> string" where
  "strip s = rstrip (lstrip s)"

definition newline :: string where
  "newline = [CHR 0x0A]"

subsection \<open>The handlers\<close>

text \<open>\<open>POST /decrypt-seed\<close>.\<close>

definition decrypt_seed_endpoint ::
  "'k deps \<Rightarrow> DecryptSeedRequest \<Rightarrow> world \<Rightarrow> (http_exception + response) \<times> world" where
  "decrypt_seed_endpoint d body w =
     (case load_private_key d ''student_private.pem'' of
        Inl e \<Rightarrow>
          (Inl (HTTPException 500 (''Private key load failed: '' @ exn_str e)), w)
      | Inr private_key \<Rightarrow>
          (case decrypt_seed d (encrypted_seed body) private_key of
             Inl e \<Rightarrow> (Inl (HTTPException 500 ''Decryption failed''), w)
           | Inr hex_seed \<Rightarrow>
               (case write_text (hex_seed @ newline) w of
                  (Inl e, w') \<Rightarrow> (Inl (HTTPException 500 ''Failed to persist seed''), w')
                | (Inr u, w') \<Rightarrow> (Inr (Status ''ok''), w'))))"

text \<open>
  Both readers run \<open>SEED_FILE.read_text(encoding="utf-8").strip()\<close> inside a
  \<open>try\<close> whose handler raises the 500 "Error reading seed".
\<close>

definition read_seed :: "world \<Rightarrow> http_exception + string" where
  "read_seed w =
     (case read_text w of
        Inl e \<Rightarrow> Inl (HTTPException 500 ''Error reading seed'')
      | Inr s \<Rightarrow> Inr (strip s))"

text \<open>\<open>GET /generate-2fa\<close>.\<close>

definition generate_2fa :: "'k deps \<Rightarrow> world \<Rightarrow> http_exception + response" where
  "generate_2fa d w =
     (if \<not> exists_file w then Inl (HTTPException 500 ''Seed not decrypted yet'')
      else
        (case read_seed w of
           Inl h \<Rightarrow> Inl h
         | Inr hex_seed \<Rightarrow>
             (case generate_totp_code d hex_seed of
                Inl e \<Rightarrow> Inl (HTTPException 500 ''Error generating TOTP'')
              | Inr c \<Rightarrow>
                  (case seconds_remaining_in_period d 30 of
                     Inl e \<Rightarrow> Inl (HTTPException 500 ''Error generating TOTP'')
                   | Inr valid_for \<Rightarrow> Inr (Code2FA c valid_for)))))"

text \<open>\<open>POST /verify-2fa\<close>.\<close>

definition verify_2fa :: "'k deps \<Rightarrow> Verify2FARequest \<Rightarrow> world \<Rightarrow> http_exception + response" where
  "verify_2fa d body w =
     (case code body of
        None \<Rightarrow> Inl (HTTPException 400 ''Missing code'')
      | Some c \<Rightarrow>
          (if strip c = [] then Inl (HTTPException 400 ''Missing code'')
           else if \<not> exists_file w then Inl (HTTPException 500 ''Seed not decrypted yet'')
           else
             (case read_seed w of
                Inl h \<Rightarrow> Inl h
              | Inr hex_seed \<Rightarrow>
                  (case verify_totp_code d hex_seed c 1 of
                     Inl e \<Rightarrow> Inl (HTTPException 500 ''Error verifying TOTP'')
                   | Inr valid \<Rightarrow> Inr (Valid valid)))))"

text \<open>Concrete collaborators and worlds to run the handlers on.\<close>

definition failing_key_deps :: "string \<Rightarrow> unit deps" where
  "failing_key_deps msg =
     \<lparr>load_private_key = (\<lambda>p. Inl (Exn ''ValueError'' msg)),
      decrypt_seed = (\<lambda>c k. Inr ''00''),
      generate_totp_code = (\<lambda>s. Inr ''000000''),
      seconds_remaining_in_period = (\<lambda>p. Inr 30),
      verify_totp_code = (\<lambda>s c v. Inr False)\<rparr>"

definition failing_decrypt_deps :: "string \<Rightarrow> unit deps" where
  "failing_decrypt_deps msg =
     \<lparr>load_private_key = (\<lambda>p. Inr ()),
      decrypt_seed = (\<lambda>c k. Inl (Exn ''ValueError'' msg)),
      generate_totp_code = (\<lambda>s. Inl (Exn ''ValueError'' msg)),
      seconds_remaining_in_period = (\<lambda>p. Inr 30),
      verify_totp_code = (\<lambda>s c v. Inl (Exn ''ValueError'' msg))\<rparr>"

definition working_deps :: "string \<Rightarrow> unit deps" where
  "working_deps h =
     \<lparr>load_private_key = (\<lambda>p. Inr ()),
      decrypt_seed = (\<lambda>c k. Inr h),
      generate_totp_code = (\<lambda>s. Inr ''000000''),
      seconds_remaining_in_period = (\<lambda>p. Inr 30),
      verify_totp_code = (\<lambda>s c v. Inr False)\<rparr>"

text \<open>
  Collaborators that hand back the seed they are given, to observe what the handlers pass
  on: the generated code is the seed itself, and a candidate verifies when it equals the
  seed.
\<close>

definition echo_deps :: "string \<Rightarrow> unit deps" where
  "echo_deps h =
     \<lparr>load_private_key = (\<lambda>p. Inr ()),
      decrypt_seed = (\<lambda>c k. Inr h),
      generate_totp_code = (\<lambda>s. Inr s),
      seconds_remaining_in_period = (\<lambda>p. Inr 30),
      verify_totp_code = (\<lambda>s c v. Inr (s = c))\<rparr>"

definition fresh_world :: world where
  "fresh_world = \<lparr>seed_file = None, write_error = None, read_error = None\<rparr>"

definition seeded_world :: "string \<Rightarrow> world" where
  "seeded_world s = \<lparr>seed_file = Some s, write_error = None, read_error = None\<rparr>"

subsection \<open>Histories of decrypt-seed calls\<close>

text \<open>
  One call of \<open>POST /decrypt-seed\<close>: how the collaborators behave at that time, the
  request, and the fault, if any, that the file system has in store for the write.
\<close>

type_synonym 'k decrypt_call = "'k deps \<times> DecryptSeedRequest \<times> (exn \<times> string option) option"

fun decrypt_history :: "'k decrypt_call list \<Rightarrow> world \<Rightarrow> world" where
  "decrypt_history [] w = w"
| "decrypt_history ((d, body, fault) # calls) w =
     decrypt_history calls (snd (decrypt_seed_endpoint d body (w\<lparr>write_error := fault\<rparr>)))"

text \<open>The call gets as far as \<open>SEED_FILE.write_text\<close>: the key loads and the seed decrypts.\<close>

definition reaches_write :: "'k deps \<Rightarrow> DecryptSeedRequest \<Rightarrow> bool" where
  "reaches_write d body =
     (case load_private_key d ''student_private.pem'' of
        Inl e \<Rightarrow> False
      | Inr k \<Rightarrow>
          (case decrypt_seed d (encrypted_seed body) k of
             Inl e \<Rightarrow> False
           | Inr h \<Rightarrow> True))"

text \<open>
  The call fails and creates no file: it fails before the write, or its write fails
  leaving nothing behind.
\<close>

fun leaves_no_file :: "'k decrypt_call \<Rightarrow> bool" where
  "leaves_no_file (d, body, Some (e, None)) = True"
| "leaves_no_file (d, body, fault) = (\<not> reaches_write d body)"

subsection \<open>Predicates used in the properties\<close>

definition lower_hex :: "string \<Rightarrow> bool" where
  "lower_hex s = list_all (\<lambda>c. c \<in> set ''0123456789abcdef'') s"

definition fixed_details :: "string set" where
  "fixed_details =
     {''Decryption failed'', ''Failed to persist seed'', ''Seed not decrypted yet'',
      ''Error reading seed'', ''Error generating TOTP'', ''Missing code'',
      ''Error verifying TOTP''}"

section \<open>The TOTP engine\<close>

text \<open>
  Modelled from the spec: \<open>app/totp_utils.py\<close> (\<open>generate_totp_code\<close>,
  \<open>verify_totp_code\<close>), which main.py imports, is not among the sources. The
  definitions of this section follow section 4.2 of the specification (TotpEngine,
  contracts A and B) and, for HMAC-SHA1, the standards it names (RFC 2104 over FIPS 180-4
  SHA-1). Bytes and 32-bit words are integers, with the reduction modulo \<open>2^32\<close>
  written out; timestamps are Python integers.
\<close>

type_synonym byte = int
type_synonym word32 = int

subsection \<open>SHA-1\<close>

definition add32 :: "word32 \<Rightarrow> word32 \<Rightarrow> word32" where
  "add32 x y = (x + y) mod 4294967296"

definition rotl32 :: "nat \<Rightarrow> word32 \<Rightarrow> word32" where
  "rotl32 n x = (x * 2 ^ n) mod 4294967296 OR x div 2 ^ (32 - n)"

definition not32 :: "word32 \<Rightarrow> word32" where
  "not32 x = x XOR 4294967295"

text \<open>The \<open>n\<close> low-order bytes of an integer, most significant first.\<close>

definition be_bytes :: "nat \<Rightarrow> int \<Rightarrow> byte list" where
  "be_bytes n x = map (\<lambda>i. (x div 256 ^ i) mod 256) (rev [0..<n])"

fun be_words :: "byte list \<Rightarrow> word32 list" where
  "be_words (a # b # c # d # r) = (((a * 256 + b) * 256 + c) * 256 + d) # be_words r"
| "be_words r = []"

definition sha1_f :: "nat \<Rightarrow> word32 \<Rightarrow> word32 \<Rightarrow> word32 \<Rightarrow> word32" where
  "sha1_f t b c d =
     (if t < 20 then (b AND c) XOR (not32 b AND d)
      else if t < 40 then b XOR c XOR d
      else if t < 60 then (b AND c) XOR (b AND d) XOR (c AND d)
      else b XOR c XOR d)"

definition sha1_k :: "nat \<Rightarrow> word32" where
  "sha1_k t =
     (if t < 20 then 0x5A827999
      else if t < 40 then 0x6ED9EBA1
      else if t < 60 then 0x8F1BBCDC
      else 0xCA62C1D6)"

text \<open>
  The message schedule, newest word first: \<open>W\<^sub>t = ROTL\<^sup>1(W\<^sub>t\<^sub>-\<^sub>3 XOR W\<^sub>t\<^sub>-\<^sub>8 XOR W\<^sub>t\<^sub>-\<^sub>1\<^sub>4 XOR W\<^sub>t\<^sub>-\<^sub>1\<^sub>6)\<close>.
  It is only run on the sixteen words of a full block.
\<close>

primrec extend :: "nat \<Rightarrow> word32 list \<Rightarrow> word32 list" where
  "extend 0 rs = rs"
| "extend (Suc n) rs = extend n (rotl32 1 (rs ! 2 XOR rs ! 7 XOR rs ! 13 XOR rs ! 15) # rs)"

definition schedule :: "word32 list \<Rightarrow> word32 list" where
  "schedule ws = rev (extend 64 (rev ws))"

type_synonym sha1_state = "word32 \<times> word32 \<times> word32 \<times> word32 \<times> word32"

fun sha1_step :: "nat \<Rightarrow> word32 \<Rightarrow> sha1_state \<Rightarrow> sha1_state" where
  "sha1_step t w (a, b, c, d, e) =
     (add32 (add32 (add32 (add32 (rotl32 5 a) (sha1_f t b c d)) e) (sha1_k t)) w,
      a, rotl32 30 b, c, d)"

fun sha1_rounds :: "nat \<Rightarrow> word32 list \<Rightarrow> sha1_state \<Rightarrow> sha1_state" where
  "sha1_rounds t [] s = s"
| "sha1_rounds t (w # ws) s = sha1_rounds (t + 1) ws (sha1_step t w s)"

fun add_state :: "sha1_state \<Rightarrow> sha1_state \<Rightarrow> sha1_state" where
  "add_state (a, b, c, d, e) (a', b', c', d', e') =
     (add32 a a', add32 b b', add32 c c', add32 d d', add32 e e')"

definition compress :: "sha1_state \<Rightarrow> byte list \<Rightarrow> sha1_state" where
  "compress h block = add_state h (sha1_rounds 0 (schedule (be_words block)) h)"

fun sha1_blocks :: "byte list \<Rightarrow> sha1_state \<Rightarrow> sha1_state" where
  "sha1_blocks bs h =
     (if length bs < 64 then h else sha1_blocks (drop 64 bs) (compress h (take 64 bs)))"

definition sha1_pad :: "byte list \<Rightarrow> byte list" where
  "sha1_pad m = m @ [0x80] @ replicate ((119 - length m mod 64) mod 64) 0
                  @ be_bytes 8 (8 * int (length m))"

definition sha1_init :: sha1_state where
  "sha1_init = (0x67452301, 0xEFCDAB89, 0x98BADCFE, 0x10325476, 0xC3D2E1F0)"

fun state_bytes :: "sha1_state \<Rightarrow> byte list" where
  "state_bytes (a, b, c, d, e) =
     be_bytes 4 a @ be_bytes 4 b @ be_bytes 4 c @ be_bytes 4 d @ be_bytes 4 e"

definition sha1 :: "byte list \<Rightarrow> byte list" where
  "sha1 m = state_bytes (sha1_blocks (sha1_pad m) sha1_init)"

subsection \<open>HMAC-SHA1\<close>

definition hmac_key :: "byte list \<Rightarrow> byte list" where
  "hmac_key key =
     (if 64 < length key then sha1 key @ replicate 44 0
      else key @ replicate (64 - length key) 0)"

definition hmac_sha1 :: "byte list \<Rightarrow> byte list \<Rightarrow> byte list" where
  "hmac_sha1 key msg =
     sha1 (map (\<lambda>b. b XOR 0x5C) (hmac_key key)
           @ sha1 (map (\<lambda>b. b XOR 0x36) (hmac_key key) @ msg))"

subsection \<open>Contract A: generate\<close>

datatype totp_error = TotpComputeError | ValidationError

definition hex_digit :: "char \<Rightarrow> int option" where
  "hex_digit c =
     (let n = of_char c :: int
      in if 48 \<le> n \<and> n \<le> 57 then Some (n - 48)
         else if 97 \<le> n \<and> n \<le> 102 then Some (n - 87)
         else if 65 \<le> n \<and> n \<le> 70 then Some (n - 55)
         else None)"

fun hex_decode :: "string \<Rightarrow> byte list option" where
  "hex_decode [] = Some []"
| "hex_decode [c] = None"
| "hex_decode (c1 # c2 # r) =
     (case (hex_digit c1, hex_digit c2, hex_decode r) of
        (Some h, Some l, Some bs) \<Rightarrow> Some ((16 * h + l) # bs)
      | _ \<Rightarrow> None)"

text \<open>
  Modelled from the spec: "signals TotpComputeError if secretHex is not valid hexadecimal
  or decodes to zero bytes".
\<close>

definition secret_bytes :: "string \<Rightarrow> totp_error + byte list" where
  "secret_bytes secretHex =
     (case hex_decode secretHex of
        None \<Rightarrow> Inl TotpComputeError
      | Some key \<Rightarrow> if key = [] then Inl TotpComputeError else Inr key)"

definition valid_secret :: "string \<Rightarrow> bool" where
  "valid_secret secretHex =
     (case hex_decode secretHex of None \<Rightarrow> False | Some key \<Rightarrow> key \<noteq> [])"

fun be_int :: "byte list \<Rightarrow> int" where
  "be_int [] = 0"
| "be_int (b # bs) = b * 256 ^ length bs + be_int bs"

text \<open>
  Modelled from the spec: dynamic truncation. The offset is the low 4 bits of the last
  byte; the 4 bytes from there are read big-endian and bit 31 is cleared.
\<close>

definition offset :: "byte list \<Rightarrow> nat" where
  "offset digest = nat (last digest AND 15)"

definition truncate :: "byte list \<Rightarrow> int" where
  "truncate digest = be_int (take 4 (drop (offset digest) digest)) AND 0x7FFFFFFF"

definition digit_char :: "int \<Rightarrow> char" where
  "digit_char d = char_of (48 + d)"

function decimal :: "int \<Rightarrow> string" where
  "decimal n = (if n < 10 then [digit_char n] else decimal (n div 10) @ [digit_char (n mod 10)])"
  by pat_completeness auto
termination
  by (relation "measure nat") auto

definition zfill :: "nat \<Rightarrow> string \<Rightarrow> string" where
  "zfill width s = replicate (width - length s) (CHR ''0'') @ s"

text \<open>
  Modelled from the spec: the counter as an 8-byte big-endian integer, HMAC-SHA1 keyed
  with the secret, truncation, then \<open>value mod 10^digits\<close> as a zero-padded decimal
  string of length \<open>digits\<close>.
\<close>

definition hotp :: "byte list \<Rightarrow> int \<Rightarrow> nat \<Rightarrow> string" where
  "hotp key counter digits =
     zfill digits (decimal (truncate (hmac_sha1 key (be_bytes 8 counter)) mod 10 ^ digits))"

text \<open>
  Modelled from the spec: \<open>generate(secretHex, atTime, digits=6, stepSeconds=30)\<close>,
  with \<open>counter = floor(atTime / stepSeconds)\<close> (\<open>div\<close> on \<open>int\<close> rounds down).
  The properties below are all stated at \<open>digits = 6\<close> and \<open>stepSeconds = 30\<close>.
\<close>

definition generate :: "string \<Rightarrow> int \<Rightarrow> nat \<Rightarrow> int \<Rightarrow> totp_error + string" where
  "generate secretHex atTime digits stepSeconds =
     (case secret_bytes secretHex of
        Inl e \<Rightarrow> Inl e
      | Inr key \<Rightarrow> Inr (hotp key (atTime div stepSeconds) digits))"

subsection \<open>Contract B: verify\<close>

definition is_digit :: "char \<Rightarrow> bool" where
  "is_digit c = (48 \<le> (of_char c :: int) \<and> (of_char c :: int) \<le> 57)"

text \<open>
  Modelled from the spec: a candidate that is "empty or not composed of decimal digits of
  the expected length" is a ValidationError.
\<close>

definition code_shaped :: "nat \<Rightarrow> string \<Rightarrow> bool" where
  "code_shaped digits c = (c \<noteq> [] \<and> length c = digits \<and> list_all is_digit c)"

text \<open>The code of the step \<open>k\<close> periods away from \<open>atTime\<close>.\<close>

definition window_code :: "string \<Rightarrow> int \<Rightarrow> int \<Rightarrow> int \<Rightarrow> totp_error + string" where
  "window_code secretHex atTime stepSeconds k =
     generate secretHex (atTime + k * stepSeconds) 6 stepSeconds"

text \<open>All codes are computed; the candidate matches when it equals any one of them.\<close>

fun matches :: "(totp_error + string) list \<Rightarrow> string \<Rightarrow> totp_error + bool" where
  "matches [] c = Inr False"
| "matches (Inl e # r) c = Inl e"
| "matches (Inr x # r) c =
     (case matches r c of Inl e \<Rightarrow> Inl e | Inr b \<Rightarrow> Inr (x = c \<or> b))"

text \<open>
  Modelled from the spec: \<open>verify(secretHex, candidate, atTime, window=1,
  stepSeconds=30)\<close> computes \<open>generate(secretHex, atTime + k*stepSeconds)\<close> for every
  integer \<open>k\<close> in \<open>[-window, window]\<close> and returns true iff the candidate equals one
  of those codes.
\<close>

definition verify :: "string \<Rightarrow> string \<Rightarrow> int \<Rightarrow> int \<Rightarrow> int \<Rightarrow> totp_error + bool" where
  "verify secretHex candidate atTime window stepSeconds =
     (if \<not> code_shaped 6 candidate then Inl ValidationError
      else matches (map (window_code secretHex atTime stepSeconds) [- window..window])
             candidate)"

declare decimal.simps [simp del]
declare sha1_blocks.simps [simp del]

section \<open>Properties of the boundary\<close>

lemma isspace_newline: "isspace (CHR 0x0A)"
  by (simp add: isspace_def)

lemma lower_hex_no_space: "lower_hex s \<Longrightarrow> list_all (\<lambda>c. \<not> isspace c) s"
  unfolding lower_hex_def
  by (induction s) (auto simp: isspace_def)

lemma dropWhile_id: "list_all (\<lambda>c. \<not> P c) s \<Longrightarrow> dropWhile P s = (if s = [] then [] else s)"
  by (cases s) auto

lemma strip_line:
  assumes "list_all (\<lambda>c. \<not> isspace c) s"
  shows "strip (s @ newline) = s"
proof (cases s)
  case Nil
  then show ?thesis by (simp add: strip_def lstrip_def rstrip_def newline_def isspace_newline)
next
  case (Cons x xs)
  with assms have x: "\<not> isspace x" by simp
  have ls: "lstrip (s @ [CHR 0x0A]) = s @ [CHR 0x0A]"
    using Cons x by (simp add: lstrip_def)
  have ns: "\<not> isspace (last s)"
    using assms Cons by (metis last_in_set list.distinct(1) list_all_iff)
  obtain a l where al: "rev s = a # l"
    using Cons by (cases "rev s") auto
  then have "a = last s"
    by (metis hd_rev list.sel(1))
  with ns have "dropWhile isspace (a # l) = a # l"
    by simp
  then have "dropWhile isspace (rev s) = rev s"
    by (simp only: al)
  then show ?thesis
    by (simp add: strip_def ls rstrip_def newline_def isspace_newline)
qed

text \<open>
  C4: whatever exception the decryption step raises (bad base64, wrong ciphertext
  length, failed padding check), once the key has loaded the handler answers with the one
  error 500 "Decryption failed"; the exception does not reach the response.
\<close>

theorem decrypt_failure_opaque:
  assumes "load_private_key d ''student_private.pem'' = Inr k"
    and "decrypt_seed d (encrypted_seed body) k = Inl e"
  shows "decrypt_seed_endpoint d body w = (Inl (HTTPException 500 ''Decryption failed''), w)"
  using assms by (simp add: decrypt_seed_endpoint_def)

theorem decrypt_failure_opaque_witness:
  "load_private_key (failing_decrypt_deps ''Incorrect padding'') ''student_private.pem'' = Inr ()
   \<and> decrypt_seed (failing_decrypt_deps ''Incorrect padding'')
        (encrypted_seed \<lparr>encrypted_seed = ''!!''\<rparr>) () = Inl (Exn ''ValueError'' ''Incorrect padding'')
   \<and> decrypt_seed_endpoint (failing_decrypt_deps ''Incorrect padding'')
        \<lparr>encrypted_seed = ''!!''\<rparr> fresh_world
      = (Inl (HTTPException 500 ''Decryption failed''), fresh_world)"
proof -
  have a: "load_private_key (failing_decrypt_deps ''Incorrect padding'') ''student_private.pem'' = Inr ()"
    by (simp add: failing_decrypt_deps_def)
  have b: "decrypt_seed (failing_decrypt_deps ''Incorrect padding'')
        (encrypted_seed \<lparr>encrypted_seed = ''!!''\<rparr>) () = Inl (Exn ''ValueError'' ''Incorrect padding'')"
    by (simp add: failing_decrypt_deps_def)
  show ?thesis using a b decrypt_failure_opaque [OF a b, of fresh_world] by simp
qed

text \<open>
  C5: every error message is to be a fixed string without exception detail. The handler of
  decrypt-seed does not keep to it when the key fails to load: the text of the exception it
  caught is copied into the detail, so two loads failing with different texts give
  different messages.
\<close>

theorem key_load_detail_leaks:
  "fst (decrypt_seed_endpoint (failing_key_deps ''Could not deserialize key data'')
          \<lparr>encrypted_seed = ''AA==''\<rparr> fresh_world)
     = Inl (HTTPException 500 ''Private key load failed: Could not deserialize key data'')
   \<and> fst (decrypt_seed_endpoint (failing_key_deps ''[Errno 13] Permission denied'')
          \<lparr>encrypted_seed = ''AA==''\<rparr> fresh_world)
     = Inl (HTTPException 500 ''Private key load failed: [Errno 13] Permission denied'')"
  by (simp add: decrypt_seed_endpoint_def failing_key_deps_def)

text \<open>
  Every other error path does keep to it: once the key has loaded, each error of the three
  handlers carries one of seven fixed strings.
\<close>

lemma other_error_details_fixed:
  "(load_private_key d ''student_private.pem'' = Inr k
      \<and> fst (decrypt_seed_endpoint d body w) = Inl h1 \<longrightarrow> detail h1 \<in> fixed_details)
   \<and> (generate_2fa d w = Inl h2 \<longrightarrow> detail h2 \<in> fixed_details)
   \<and> (verify_2fa d vbody w = Inl h3 \<longrightarrow> detail h3 \<in> fixed_details)"
proof (intro conjI impI)
  assume "load_private_key d ''student_private.pem'' = Inr k
      \<and> fst (decrypt_seed_endpoint d body w) = Inl h1"
  then show "detail h1 \<in> fixed_details"
    by (auto simp: decrypt_seed_endpoint_def fixed_details_def split: sum.splits prod.splits)
next
  assume "generate_2fa d w = Inl h2"
  then show "detail h2 \<in> fixed_details"
    by (auto simp: generate_2fa_def read_seed_def fixed_details_def split: sum.splits if_splits)
next
  assume "verify_2fa d vbody w = Inl h3"
  then show "detail h3 \<in> fixed_details"
    by (auto simp: verify_2fa_def read_seed_def fixed_details_def
        split: sum.splits if_splits option.splits)
qed

text \<open>
  C6: a decrypt-seed call that fails at key loading or at decryption returns an error and
  leaves the seed file as it was, so a later read sees what it saw before.
\<close>

theorem failed_decrypt_keeps_slot:
  assumes "(\<exists>e. load_private_key d ''student_private.pem'' = Inl e)
           \<or> (\<exists>k e. load_private_key d ''student_private.pem'' = Inr k
                  \<and> decrypt_seed d (encrypted_seed body) k = Inl e)"
  shows "(\<exists>h. fst (decrypt_seed_endpoint d body w) = Inl h)
         \<and> snd (decrypt_seed_endpoint d body w) = w
         \<and> read_seed (snd (decrypt_seed_endpoint d body w)) = read_seed w"
  using assms by (auto simp: decrypt_seed_endpoint_def)

theorem failed_decrypt_keeps_slot_witness:
  "load_private_key (failing_decrypt_deps ''Incorrect padding'') ''student_private.pem'' = Inr ()
   \<and> decrypt_seed (failing_decrypt_deps ''Incorrect padding'')
        (encrypted_seed \<lparr>encrypted_seed = ''!!''\<rparr>) () = Inl (Exn ''ValueError'' ''Incorrect padding'')
   \<and> snd (decrypt_seed_endpoint (failing_decrypt_deps ''Incorrect padding'')
        \<lparr>encrypted_seed = ''!!''\<rparr> (seeded_world ''0a1b'')) = seeded_world ''0a1b''
   \<and> load_private_key (failing_key_deps ''bad key'') ''student_private.pem''
        = Inl (Exn ''ValueError'' ''bad key'')
   \<and> snd (decrypt_seed_endpoint (failing_key_deps ''bad key'')
        \<lparr>encrypted_seed = ''!!''\<rparr> (seeded_world ''0a1b'')) = seeded_world ''0a1b''"
proof -
  have a: "load_private_key (failing_decrypt_deps ''Incorrect padding'') ''student_private.pem'' = Inr ()"
    by (simp add: failing_decrypt_deps_def)
  have b: "decrypt_seed (failing_decrypt_deps ''Incorrect padding'')
        (encrypted_seed \<lparr>encrypted_seed = ''!!''\<rparr>) () = Inl (Exn ''ValueError'' ''Incorrect padding'')"
    by (simp add: failing_decrypt_deps_def)
  have c: "load_private_key (failing_key_deps ''bad key'') ''student_private.pem''
        = Inl (Exn ''ValueError'' ''bad key'')"
    by (simp add: failing_key_deps_def)
  from a b have h1: "(\<exists>e. load_private_key (failing_decrypt_deps ''Incorrect padding'')
              ''student_private.pem'' = Inl e)
           \<or> (\<exists>k e. load_private_key (failing_decrypt_deps ''Incorrect padding'')
                  ''student_private.pem'' = Inr k
                  \<and> decrypt_seed (failing_decrypt_deps ''Incorrect padding'')
                      (encrypted_seed \<lparr>encrypted_seed = ''!!''\<rparr>) k = Inl e)"
    by blast
  from c have h2: "(\<exists>e. load_private_key (failing_key_deps ''bad key'')
              ''student_private.pem'' = Inl e)
           \<or> (\<exists>k e. load_private_key (failing_key_deps ''bad key'')
                  ''student_private.pem'' = Inr k
                  \<and> decrypt_seed (failing_key_deps ''bad key'')
                      (encrypted_seed \<lparr>encrypted_seed = ''!!''\<rparr>) k = Inl e)"
    by blast
  show ?thesis
    using a b c failed_decrypt_keeps_slot [OF h1, of "seeded_world ''0a1b''"]
      failed_decrypt_keeps_slot [OF h2, of "seeded_world ''0a1b''"]
    by simp
qed

text \<open>
  Two runs in which no decrypt has succeeded and yet the seed error is not the answer. A
  code of one space is not empty, but without a seed file it is answered with 400 "Missing
  code". And a decrypt-seed call whose write fails half way reports "Failed to persist
  seed" but leaves a file behind, after which generate-2fa returns a code and verify-2fa a
  verdict.
\<close>

theorem seed_not_initialized_counterexample:
  "'' '' \<noteq> [] \<and> seed_file fresh_world = None
   \<and> verify_2fa (working_deps ''00'') \<lparr>code = Some '' ''\<rparr> fresh_world
       = Inl (HTTPException 400 ''Missing code'')
   \<and> fst (decrypt_seed_endpoint (working_deps ''0a1b'') \<lparr>encrypted_seed = ''AA==''\<rparr>
            (fresh_world\<lparr>write_error :=
               Some (Exn ''OSError'' ''No space left on device'', Some ''0a'')\<rparr>))
       = Inl (HTTPException 500 ''Failed to persist seed'')
   \<and> generate_2fa (working_deps ''0a1b'')
        (decrypt_history
           [(working_deps ''0a1b'', \<lparr>encrypted_seed = ''AA==''\<rparr>,
             Some (Exn ''OSError'' ''No space left on device'', Some ''0a''))] fresh_world)
       = Inr (Code2FA ''000000'' 30)
   \<and> verify_2fa (working_deps ''0a1b'') \<lparr>code = Some ''123456''\<rparr>
        (decrypt_history
           [(working_deps ''0a1b'', \<lparr>encrypted_seed = ''AA==''\<rparr>,
             Some (Exn ''OSError'' ''No space left on device'', Some ''0a''))] fresh_world)
       = Inr (Valid False)"
  by (simp add: verify_2fa_def generate_2fa_def decrypt_seed_endpoint_def write_text_def
      read_seed_def read_text_def exists_file_def working_deps_def fresh_world_def
      strip_def lstrip_def rstrip_def isspace_def)

lemma call_leaves_no_file:
  assumes "leaves_no_file (d, body, fault)" and "seed_file w = None"
  shows "seed_file (snd (decrypt_seed_endpoint d body (w\<lparr>write_error := fault\<rparr>))) = None"
proof (cases "reaches_write d body")
  case False
  then show ?thesis
    using assms(2)
    by (auto simp: reaches_write_def decrypt_seed_endpoint_def split: sum.splits)
next
  case True
  with assms(1) obtain e where "fault = Some (e, None)"
    by (cases "(d, body, fault)" rule: leaves_no_file.cases) auto
  then show ?thesis
    using True assms(2)
    by (auto simp: reaches_write_def decrypt_seed_endpoint_def write_text_def
        split: sum.splits)
qed

lemma history_leaves_no_file:
  "seed_file w = None \<Longrightarrow> list_all leaves_no_file calls
     \<Longrightarrow> seed_file (decrypt_history calls w) = None"
proof (induction calls arbitrary: w)
  case Nil
  then show ?case by simp
next
  case (Cons call calls)
  obtain d body fault where call: "call = (d, body, fault)"
    by (cases call) auto
  from Cons.prems have "leaves_no_file (d, body, fault)" and rest: "list_all leaves_no_file calls"
    by (simp_all add: call)
  with Cons.prems(1)
  have "seed_file (snd (decrypt_seed_endpoint d body (w\<lparr>write_error := fault\<rparr>))) = None"
    by (simp add: call_leaves_no_file)
  with rest show ?case
    by (simp add: call Cons.IH)
qed

text \<open>
  C7 (amended): if the seed file has never been created, that is, the service started
  without one and every decrypt-seed call so far has failed at key loading, at decryption,
  or at the write without leaving a file, then generate-2fa fails with 500 "Seed not
  decrypted yet", and so does verify-2fa for a code that is not empty after stripping
  whitespace.
\<close>

theorem no_seed_not_initialized:
  assumes "seed_file w = None" and "list_all leaves_no_file calls"
    and "code body = Some c" and "strip c \<noteq> []"
  shows "generate_2fa d (decrypt_history calls w)
           = Inl (HTTPException 500 ''Seed not decrypted yet'')
         \<and> verify_2fa d body (decrypt_history calls w)
           = Inl (HTTPException 500 ''Seed not decrypted yet'')"
  using assms(3,4) history_leaves_no_file [OF assms(1,2)]
  by (simp add: generate_2fa_def verify_2fa_def exists_file_def)

definition failed_calls :: "unit decrypt_call list" where
  "failed_calls =
     [(failing_key_deps ''bad key'', \<lparr>encrypted_seed = ''AA==''\<rparr>, None),
      (failing_decrypt_deps ''Incorrect padding'', \<lparr>encrypted_seed = ''!!''\<rparr>, None),
      (working_deps ''0a1b'', \<lparr>encrypted_seed = ''AA==''\<rparr>,
       Some (Exn ''PermissionError'' ''Permission denied'', None))]"

theorem no_seed_not_initialized_witness:
  "seed_file fresh_world = None \<and> list_all leaves_no_file failed_calls
   \<and> code \<lparr>code = Some ''123456''\<rparr> = Some ''123456''
   \<and> strip ''123456'' \<noteq> []
   \<and> generate_2fa (working_deps ''00'') (decrypt_history failed_calls fresh_world)
        = Inl (HTTPException 500 ''Seed not decrypted yet'')
   \<and> verify_2fa (working_deps ''00'') \<lparr>code = Some ''123456''\<rparr>
        (decrypt_history failed_calls fresh_world)
        = Inl (HTTPException 500 ''Seed not decrypted yet'')"
proof -
  have a: "seed_file fresh_world = None" by (simp add: fresh_world_def)
  have h: "list_all leaves_no_file failed_calls"
    by (simp add: failed_calls_def reaches_write_def failing_key_deps_def
        failing_decrypt_deps_def)
  have b: "code \<lparr>code = Some ''123456''\<rparr> = Some ''123456''" by simp
  have c: "strip ''123456'' \<noteq> []"
    by (simp add: strip_def lstrip_def rstrip_def isspace_def)
  show ?thesis
    using a h b c no_seed_not_initialized [OF a h b c, of "working_deps ''00''"]
    by (intro conjI) simp_all
qed

lemma lower_hex_no_cr:
  assumes "lower_hex h"
  shows "CHR 0x0D \<notin> set (h @ newline)"
proof
  assume "CHR 0x0D \<in> set (h @ newline)"
  then have "CHR 0x0D \<in> set h"
    by (simp add: newline_def)
  with assms have "CHR 0x0D \<in> set ''0123456789abcdef''"
    unfolding lower_hex_def list_all_iff by blast
  then show False
    by simp
qed

lemma universal_newlines_id: "CHR 0x0D \<notin> set s \<Longrightarrow> universal_newlines s = s"
  by (induction s rule: universal_newlines.induct) auto

text \<open>
  C8: a successful decrypt-seed that obtained the lowercase hex string h leaves h followed
  by a newline in the seed file. Reading it back and stripping gives exactly h, and h is
  what generate-2fa hands to the code generator and verify-2fa to the verifier: their
  answers are those of the collaborators on h (or the read error, when reading fails).
\<close>

theorem stored_seed_round_trip:
  assumes "lower_hex h"
    and "load_private_key d ''student_private.pem'' = Inr k"
    and "decrypt_seed d (encrypted_seed body) k = Inr h"
    and "decrypt_seed_endpoint d body w = (Inr r, w')"
  shows "seed_file w' = Some (h @ newline)
         \<and> read_seed w' = (case read_error w of
                             None \<Rightarrow> Inr h
                           | Some e \<Rightarrow> Inl (HTTPException 500 ''Error reading seed''))
         \<and> generate_2fa d' w' =
             (case read_error w of
                Some e \<Rightarrow> Inl (HTTPException 500 ''Error reading seed'')
              | None \<Rightarrow>
                  (case generate_totp_code d' h of
                     Inl e \<Rightarrow> Inl (HTTPException 500 ''Error generating TOTP'')
                   | Inr c \<Rightarrow>
                       (case seconds_remaining_in_period d' 30 of
                          Inl e \<Rightarrow> Inl (HTTPException 500 ''Error generating TOTP'')
                        | Inr valid_for \<Rightarrow> Inr (Code2FA c valid_for))))
         \<and> verify_2fa d' \<lparr>code = Some c\<rparr> w' =
             (if strip c = [] then Inl (HTTPException 400 ''Missing code'')
              else
                (case read_error w of
                   Some e \<Rightarrow> Inl (HTTPException 500 ''Error reading seed'')
                 | None \<Rightarrow>
                     (case verify_totp_code d' h c 1 of
                        Inl e \<Rightarrow> Inl (HTTPException 500 ''Error verifying TOTP'')
                      | Inr valid \<Rightarrow> Inr (Valid valid))))"
proof -
  from assms(2-4) have w': "write_error w = None" "w' = w\<lparr>seed_file := Some (h @ newline)\<rparr>"
    by (auto simp: decrypt_seed_endpoint_def write_text_def split: option.splits prod.splits)
  have un: "universal_newlines (h @ newline) = h @ newline"
    using assms(1) by (intro universal_newlines_id lower_hex_no_cr)
  have st: "strip (h @ newline) = h"
    using assms(1) by (simp add: strip_line lower_hex_no_space)
  have sf: "seed_file w' = Some (h @ newline)"
    using w' by simp
  have ex: "exists_file w'"
    using sf by (simp add: exists_file_def)
  have rs: "read_seed w' = (case read_error w of
                             None \<Rightarrow> Inr h
                           | Some e \<Rightarrow> Inl (HTTPException 500 ''Error reading seed''))"
    by (simp add: read_seed_def read_text_def w' un st split: option.splits)
  have g: "generate_2fa d' w' =
             (case read_error w of
                Some e \<Rightarrow> Inl (HTTPException 500 ''Error reading seed'')
              | None \<Rightarrow>
                  (case generate_totp_code d' h of
                     Inl e \<Rightarrow> Inl (HTTPException 500 ''Error generating TOTP'')
                   | Inr c \<Rightarrow>
                       (case seconds_remaining_in_period d' 30 of
                          Inl e \<Rightarrow> Inl (HTTPException 500 ''Error generating TOTP'')
                        | Inr valid_for \<Rightarrow> Inr (Code2FA c valid_for))))"
    by (simp add: generate_2fa_def ex rs split: option.splits)
  have v: "verify_2fa d' \<lparr>code = Some c\<rparr> w' =
             (if strip c = [] then Inl (HTTPException 400 ''Missing code'')
              else
                (case read_error w of
                   Some e \<Rightarrow> Inl (HTTPException 500 ''Error reading seed'')
                 | None \<Rightarrow>
                     (case verify_totp_code d' h c 1 of
                        Inl e \<Rightarrow> Inl (HTTPException 500 ''Error verifying TOTP'')
                      | Inr valid \<Rightarrow> Inr (Valid valid))))"
    by (simp add: verify_2fa_def ex rs split: option.splits)
  from sf rs g v show ?thesis
    by (intro conjI)
qed

theorem stored_seed_round_trip_witness:
  "lower_hex ''0a1b2c''
   \<and> decrypt_seed_endpoint (echo_deps ''0a1b2c'') \<lparr>encrypted_seed = ''AA==''\<rparr> fresh_world
       = (Inr (Status ''ok''), seeded_world (''0a1b2c'' @ newline))
   \<and> read_seed (seeded_world (''0a1b2c'' @ newline)) = Inr ''0a1b2c''
   \<and> generate_2fa (echo_deps ''0a1b2c'') (seeded_world (''0a1b2c'' @ newline))
       = Inr (Code2FA ''0a1b2c'' 30)
   \<and> verify_2fa (echo_deps ''0a1b2c'') \<lparr>code = Some ''0a1b2c''\<rparr>
        (seeded_world (''0a1b2c'' @ newline)) = Inr (Valid True)"
proof -
  have a: "lower_hex ''0a1b2c''" by (simp add: lower_hex_def)
  have b: "load_private_key (echo_deps ''0a1b2c'') ''student_private.pem'' = Inr ()"
    by (simp add: echo_deps_def)
  have c: "decrypt_seed (echo_deps ''0a1b2c'') (encrypted_seed \<lparr>encrypted_seed = ''AA==''\<rparr>) ()
           = Inr ''0a1b2c''"
    by (simp add: echo_deps_def)
  have d: "decrypt_seed_endpoint (echo_deps ''0a1b2c'') \<lparr>encrypted_seed = ''AA==''\<rparr> fresh_world
       = (Inr (Status ''ok''), seeded_world (''0a1b2c'' @ newline))"
    by (simp add: decrypt_seed_endpoint_def echo_deps_def write_text_def fresh_world_def
        seeded_world_def)
  have e: "read_error fresh_world = None" by (simp add: fresh_world_def)
  have s: "strip ''0a1b2c'' \<noteq> []"
    by (simp add: strip_def lstrip_def rstrip_def isspace_def)
  note t = stored_seed_round_trip [OF a b c d, of "echo_deps ''0a1b2c''" "''0a1b2c''"]
  have r: "read_seed (seeded_world (''0a1b2c'' @ newline)) = Inr ''0a1b2c''"
    using conjunct1 [OF conjunct2 [OF t]] e by (simp only: option.case)
  have g: "generate_2fa (echo_deps ''0a1b2c'') (seeded_world (''0a1b2c'' @ newline))
       = Inr (Code2FA ''0a1b2c'' 30)"
    using conjunct1 [OF conjunct2 [OF conjunct2 [OF t]]] e by (simp add: echo_deps_def)
  have v: "verify_2fa (echo_deps ''0a1b2c'') \<lparr>code = Some ''0a1b2c''\<rparr>
        (seeded_world (''0a1b2c'' @ newline)) = Inr (Valid True)"
    using conjunct2 [OF conjunct2 [OF conjunct2 [OF t]]] e s by (simp add: echo_deps_def)
  show ?thesis
    using a d r g v by (intro conjI)
qed

text \<open>
  C9: a verify-2fa request whose code is empty or only whitespace is answered with 400
  "Missing code", whatever the collaborators and the seed file are: nothing is verified.
\<close>

theorem blank_code_rejected:
  assumes "code body = Some c" and "strip c = []"
  shows "verify_2fa d body w = Inl (HTTPException 400 ''Missing code'')"
  using assms by (simp add: verify_2fa_def)

theorem blank_code_rejected_witness:
  "strip [CHR '' '', CHR 0x09, CHR 0x0A] = []
   \<and> verify_2fa (working_deps ''00'') \<lparr>code = Some [CHR '' '', CHR 0x09, CHR 0x0A]\<rparr>
        (seeded_world ''00'') = Inl (HTTPException 400 ''Missing code'')
   \<and> strip [] = []
   \<and> verify_2fa (working_deps ''00'') \<lparr>code = Some []\<rparr> (seeded_world ''00'')
        = Inl (HTTPException 400 ''Missing code'')"
proof -
  have a: "code \<lparr>code = Some [CHR '' '', CHR 0x09, CHR 0x0A]\<rparr> = Some [CHR '' '', CHR 0x09, CHR 0x0A]"
    by simp
  have b: "strip [CHR '' '', CHR 0x09, CHR 0x0A] = []"
    by (simp add: strip_def lstrip_def rstrip_def isspace_def)
  have c: "code \<lparr>code = Some []\<rparr> = Some []" by simp
  have d: "strip [] = []" by (simp add: strip_def lstrip_def rstrip_def)
  show ?thesis
    using b d blank_code_rejected [OF a b, of "working_deps ''00''" "seeded_world ''00''"]
      blank_code_rejected [OF c d, of "working_deps ''00''" "seeded_world ''00''"]
    by simp
qed

text \<open>
  C10: a verify-2fa request without a code gets the same 400 "Missing code" as one with an
  empty code, in every state of the seed file, also when the file does not exist.
\<close>

theorem absent_code_rejected_first:
  "verify_2fa d \<lparr>code = None\<rparr> w = Inl (HTTPException 400 ''Missing code'')
   \<and> verify_2fa d \<lparr>code = Some []\<rparr> w = Inl (HTTPException 400 ''Missing code'')
   \<and> verify_2fa d \<lparr>code = None\<rparr> (w\<lparr>seed_file := None\<rparr>)
       = Inl (HTTPException 400 ''Missing code'')
   \<and> verify_2fa d \<lparr>code = Some []\<rparr> (w\<lparr>seed_file := None\<rparr>)
       = Inl (HTTPException 400 ''Missing code'')"
  by (simp add: verify_2fa_def strip_def lstrip_def rstrip_def)

section \<open>Properties of the TOTP engine\<close>

lemma is_digit_digit_char: "0 \<le> d \<Longrightarrow> d < 10 \<Longrightarrow> is_digit (digit_char d)"
  by (simp add: is_digit_def digit_char_def of_char_of)

lemma decimal_digits: "0 \<le> n \<Longrightarrow> list_all is_digit (decimal n)"
proof (induction n rule: decimal.induct)
  case (1 n)
  show ?case
  proof (cases "n < 10")
    case True
    with 1(2) show ?thesis
      by (simp add: decimal.simps [of n] is_digit_digit_char)
  next
    case False
    then have "0 \<le> n div 10" by simp
    with 1(1) False have "list_all is_digit (decimal (n div 10))" by simp
    moreover have "is_digit (digit_char (n mod 10))"
      by (rule is_digit_digit_char) simp_all
    ultimately show ?thesis
      using False by (simp add: decimal.simps [of n])
  qed
qed

lemma decimal_length: "0 < k \<Longrightarrow> n < 10 ^ k \<Longrightarrow> length (decimal n) \<le> k"
proof (induction k arbitrary: n)
  case 0
  then show ?case by simp
next
  case (Suc k)
  show ?case
  proof (cases "n < 10")
    case True
    then show ?thesis by (simp add: decimal.simps [of n])
  next
    case False
    with Suc.prems have k: "0 < k"
      by (cases k) auto
    define m :: int where "m = 10 ^ k"
    from Suc.prems have "n < 10 * m"
      by (simp add: m_def)
    then have "n div 10 < m"
      by linarith
    then have "n div 10 < 10 ^ k"
      by (simp add: m_def)
    with k have "length (decimal (n div 10)) \<le> k"
      by (rule Suc.IH)
    then show ?thesis
      using False by (simp add: decimal.simps [of n])
  qed
qed

lemma decimal_nonempty: "decimal n \<noteq> []"
  by (simp add: decimal.simps [of n])

lemma is_digit_zero: "is_digit (CHR ''0'')"
  by (simp add: is_digit_def)

lemma zfill_shaped:
  assumes "0 \<le> n" and "n < 10 ^ k" and "0 < k"
  shows "code_shaped k (zfill k (decimal n))"
proof -
  have "length (decimal n) \<le> k"
    using assms by (simp add: decimal_length)
  then have "length (zfill k (decimal n)) = k"
    by (simp add: zfill_def)
  moreover have "list_all is_digit (zfill k (decimal n))"
    using decimal_digits [OF assms(1)] by (auto simp: zfill_def is_digit_zero list_all_iff)
  moreover have "zfill k (decimal n) \<noteq> []"
    by (simp add: zfill_def decimal_nonempty)
  ultimately show ?thesis
    by (simp add: code_shaped_def)
qed

lemma hotp_shaped: "code_shaped 6 (hotp key counter 6)"
  unfolding hotp_def by (rule zfill_shaped) simp_all

lemma valid_secret_bytes: "valid_secret s \<Longrightarrow> \<exists>key. secret_bytes s = Inr key"
  by (auto simp: valid_secret_def secret_bytes_def split: option.splits)

lemma window0: "[- 0..0::int] = [0]"
  by simp

lemma window1: "[- 1..1::int] = [-1, 0, 1]"
  by code_simp

lemma rfc_secret_valid: "valid_secret ''3132333435363738393031323334353637383930''"
  by code_simp

text \<open>
  C1: for the secret hex 3132333435363738393031323334353637383930, the ASCII bytes of
  "12345678901234567890", the code at Unix time 59 with step 30 (counter 1) and 6 digits is
  287082, the published RFC test vector.
\<close>

theorem rfc_test_vector:
  "generate ''3132333435363738393031323334353637383930'' 59 6 30 = Inr ''287082''"
  by code_simp

text \<open>
  C3: for every valid hex secret and every timestamp, the code generated at that time is
  accepted at the same time with window 0.
\<close>

theorem fresh_code_verifies:
  assumes "valid_secret secretHex"
  shows "\<exists>c. generate secretHex t 6 30 = Inr c \<and> verify secretHex c t 0 30 = Inr True"
proof -
  from assms obtain key where key: "secret_bytes secretHex = Inr key"
    using valid_secret_bytes by blast
  have g: "generate secretHex t 6 30 = Inr (hotp key (t div 30) 6)"
    by (simp add: generate_def key)
  have "verify secretHex (hotp key (t div 30) 6) t 0 30 = Inr True"
    by (simp add: verify_def window_code_def hotp_shaped g)
  with g show ?thesis by blast
qed

theorem fresh_code_verifies_witness:
  "valid_secret ''3132333435363738393031323334353637383930''
   \<and> (\<exists>c. generate ''3132333435363738393031323334353637383930'' 59 6 30 = Inr c
          \<and> verify ''3132333435363738393031323334353637383930'' c 59 0 30 = Inr True)"
  using rfc_secret_valid fresh_code_verifies [OF rfc_secret_valid, of 59] by blast

text \<open>
  The codes of two adjacent steps can be equal: with the RFC secret, the steps 910737 and
  910738 both give 911617, so the code of time 27322110 is accepted at time 27322140 with
  window 0.
\<close>

theorem adjacent_codes_collide_counterexample:
  "valid_secret ''3132333435363738393031323334353637383930''
   \<and> generate ''3132333435363738393031323334353637383930'' (27322140 - 30) 6 30 = Inr ''911617''
   \<and> verify ''3132333435363738393031323334353637383930'' ''911617'' 27322140 0 30 = Inr True"
  by code_simp

text \<open>
  C2 (amended): for every valid hex secret and every timestamp t, the code generated one
  step in the past is accepted at t with window 1; with window 0 it is accepted exactly
  when it equals the code of the current step, and rejected otherwise.
\<close>

theorem previous_code_window:
  assumes "valid_secret secretHex"
  shows "\<exists>c. generate secretHex (t - 30) 6 30 = Inr c
             \<and> verify secretHex c t 1 30 = Inr True
             \<and> verify secretHex c t 0 30 = Inr (generate secretHex t 6 30 = Inr c)"
proof -
  from assms obtain key where key: "secret_bytes secretHex = Inr key"
    using valid_secret_bytes by blast
  let ?c = "hotp key ((t - 30) div 30) 6"
  have g: "generate secretHex (t - 30) 6 30 = Inr ?c"
    by (simp add: generate_def key)
  have g0: "generate secretHex t 6 30 = Inr (hotp key (t div 30) 6)"
    by (simp add: generate_def key)
  have g1: "generate secretHex (t + 30) 6 30 = Inr (hotp key ((t + 30) div 30) 6)"
    by (simp add: generate_def key)
  have v1: "verify secretHex ?c t 1 30 = Inr True"
    by (simp add: verify_def window_code_def hotp_shaped window1 g g0 g1)
  have v0: "verify secretHex ?c t 0 30 = Inr (generate secretHex t 6 30 = Inr ?c)"
    by (auto simp: verify_def window_code_def hotp_shaped g0)
  from g v1 v0 show ?thesis by blast
qed

theorem previous_code_window_witness:
  "valid_secret ''3132333435363738393031323334353637383930''
   \<and> (\<exists>c. generate ''3132333435363738393031323334353637383930'' (59 - 30) 6 30 = Inr c
          \<and> verify ''3132333435363738393031323334353637383930'' c 59 1 30 = Inr True
          \<and> verify ''3132333435363738393031323334353637383930'' c 59 0 30
              = Inr (generate ''3132333435363738393031323334353637383930'' 59 6 30 = Inr c))"
  using rfc_secret_valid previous_code_window [OF rfc_secret_valid, of 59] by blast

end
